theory Spec2Isabelle
  imports Complex_Main "HOL-Library.Char_ord" "HOL-Library.List_Lexorder"
    "HOL-Library.Product_Lexorder" "HOL-Library.Multiset"
begin

section \<open>JavaScript values used by the components\<close>

text \<open>
  A JavaScript number. \<open>Fin r\<close> stands for the finite double whose value is \<open>r\<close>;
  rounding to binary64, overflow and underflow are not modelled, and \<open>-0\<close> is
  identified with \<open>0\<close> (both are falsy and compare equal). \<open>NaN\<close> and the two
  infinities are kept apart because the handlers below branch on truthiness.
\<close>

datatype jsnum = Fin real | NaN | PosInf | NegInf

text \<open>Truthiness of a number: \<open>0\<close> and \<open>NaN\<close> are falsy.\<close>

definition truthy_num :: "jsnum \<Rightarrow> bool" where
  "truthy_num x = (case x of Fin r \<Rightarrow> r \<noteq> 0 | NaN \<Rightarrow> False | PosInf \<Rightarrow> True | NegInf \<Rightarrow> True)"

text \<open>\<open>a || b\<close> on numbers.\<close>

definition or_num :: "jsnum \<Rightarrow> jsnum \<Rightarrow> jsnum" where
  "or_num a b = (if truthy_num a then a else b)"

text \<open>\<open>x >= c\<close> for a numeric constant \<open>c\<close>: every comparison with \<open>NaN\<close> is false.\<close>

definition ge_num :: "jsnum \<Rightarrow> real \<Rightarrow> bool" where
  "ge_num x c = (case x of Fin r \<Rightarrow> c \<le> r | NaN \<Rightarrow> False | PosInf \<Rightarrow> True | NegInf \<Rightarrow> False)"

subsection \<open>The built-in \<open>parseFloat\<close>\<close>

text \<open>
  \<open>parseFloat\<close> skips leading white space and reads the longest prefix that is a
  \<open>StrDecimalLiteral\<close>: an optional sign, then \<open>Infinity\<close> or decimal digits with an
  optional fraction and an optional exponent. With no such prefix the result is
  \<open>NaN\<close>. Strings are byte strings here, so only the ASCII white space is skipped
  (a leading U+00A0 is not). The value read is the exact decimal value: JavaScript
  rounds it to the nearest double, and gives \<open>Infinity\<close> for a literal such as
  \<open>1e309\<close> where this model gives \<open>Fin (10 ^ 309)\<close>. The properties below use
  \<open>parseFloat\<close> only at the empty string, at \<open>0\<close>, at \<open>4\<close> and at letters, where
  both agree, or for an arbitrary result.
\<close>

definition is_ws :: "char \<Rightarrow> bool" where
  "is_ws c = (c \<in> set [CHR 0x09, CHR 0x0A, CHR 0x0B, CHR 0x0C, CHR 0x0D, CHR '' ''])"

definition is_digit :: "char \<Rightarrow> bool" where
  "is_digit c = (c \<in> set ''0123456789'')"

definition digit_val :: "char \<Rightarrow> nat" where
  "digit_val c = of_char c - 48"

definition digits_val :: "string \<Rightarrow> nat" where
  "digits_val ds = foldl (\<lambda>a c. 10 * a + digit_val c) 0 ds"

text \<open>
  The digits with an optional fraction: \<open>12\<close>, \<open>12.\<close>, \<open>12.5\<close>, \<open>.5\<close>; a lone
  \<open>.\<close> is no number. Returns the value and the rest of the string.
\<close>

definition mantissa :: "string \<Rightarrow> (real \<times> string) option" where
  "mantissa u =
     (let ip = takeWhile is_digit u; r1 = dropWhile is_digit u in
      case r1 of
        [] \<Rightarrow> if ip = [] then None else Some (real (digits_val ip), r1)
      | c # r \<Rightarrow>
          if c = CHR ''.'' then
            (let fp = takeWhile is_digit r; r2 = dropWhile is_digit r in
             if ip = [] \<and> fp = [] then None
             else Some (real (digits_val ip) + real (digits_val fp) / 10 ^ length fp, r2))
          else if ip = [] then None else Some (real (digits_val ip), r1))"

definition signed_int :: "string \<Rightarrow> int option" where
  "signed_int s =
     (case s of
        [] \<Rightarrow> None
      | c # r \<Rightarrow>
          if c = CHR ''+'' then
            (if takeWhile is_digit r = [] then None
             else Some (int (digits_val (takeWhile is_digit r))))
          else if c = CHR ''-'' then
            (if takeWhile is_digit r = [] then None
             else Some (- int (digits_val (takeWhile is_digit r))))
          else
            (if takeWhile is_digit s = [] then None
             else Some (int (digits_val (takeWhile is_digit s)))))"

text \<open>An exponent part without digits is not part of the literal.\<close>

definition exponent :: "string \<Rightarrow> int" where
  "exponent s =
     (case s of
        [] \<Rightarrow> 0
      | c # r \<Rightarrow>
          if c = CHR ''e'' \<or> c = CHR ''E''
          then (case signed_int r of None \<Rightarrow> 0 | Some e \<Rightarrow> e)
          else 0)"

definition scale10 :: "real \<Rightarrow> int \<Rightarrow> real" where
  "scale10 m e = (if 0 \<le> e then m * 10 ^ nat e else m / 10 ^ nat (- e))"

definition unsigned_literal :: "string \<Rightarrow> jsnum" where
  "unsigned_literal u =
     (if take 8 u = ''Infinity'' then PosInf
      else case mantissa u of
             None \<Rightarrow> NaN
           | Some (m, r) \<Rightarrow> Fin (scale10 m (exponent r)))"

definition negate :: "jsnum \<Rightarrow> jsnum" where
  "negate x = (case x of Fin r \<Rightarrow> Fin (- r) | NaN \<Rightarrow> NaN | PosInf \<Rightarrow> NegInf | NegInf \<Rightarrow> PosInf)"

definition parseFloat :: "string \<Rightarrow> jsnum" where
  "parseFloat s =
     (case dropWhile is_ws s of
        [] \<Rightarrow> NaN
      | c # r \<Rightarrow>
          if c = CHR ''-'' then negate (unsigned_literal r)
          else if c = CHR ''+'' then unsigned_literal r
          else unsigned_literal (c # r))"

subsection \<open>Numbers in a request body\<close>

text \<open>
  \<open>JSON.stringify\<close> writes \<open>null\<close> as \<open>null\<close>, a finite number as that number, and
  \<open>NaN\<close> and the infinities as \<open>null\<close>.
\<close>

datatype json_value = JNull | JNumber real

definition JSON_number :: "jsnum option \<Rightarrow> json_value" where
  "JSON_number v =
     (case v of
        None \<Rightarrow> JNull
      | Some x \<Rightarrow> (case x of Fin r \<Rightarrow> JNumber r | NaN \<Rightarrow> JNull | PosInf \<Rightarrow> JNull | NegInf \<Rightarrow> JNull))"


section \<open>ScenarioAdjustments\<close>

text \<open>The scenario object; \<open>None\<close> is JavaScript's \<open>null\<close>.\<close>

record scenario =
  annual_miles :: "jsnum option"
  fuel_price_per_gallon :: "jsnum option"
  internship_length_months :: "jsnum option"
  interest_rate :: "jsnum option"

text \<open>The \<open>name\<close> attributes of the four inputs of the component.\<close>

datatype scenario_field =
  Annual_miles | Fuel_price_per_gallon | Interest_rate | Internship_length_months

fun get_scenario_field :: "scenario_field \<Rightarrow> scenario \<Rightarrow> jsnum option" where
  "get_scenario_field Annual_miles s = annual_miles s"
| "get_scenario_field Fuel_price_per_gallon s = fuel_price_per_gallon s"
| "get_scenario_field Interest_rate s = interest_rate s"
| "get_scenario_field Internship_length_months s = internship_length_months s"

text \<open>The object spread \<open>{...scenario, [name]: v}\<close>.\<close>

fun set_scenario_field :: "scenario_field \<Rightarrow> jsnum option \<Rightarrow> scenario \<Rightarrow> scenario" where
  "set_scenario_field Annual_miles v s = s\<lparr>annual_miles := v\<rparr>"
| "set_scenario_field Fuel_price_per_gallon v s = s\<lparr>fuel_price_per_gallon := v\<rparr>"
| "set_scenario_field Interest_rate v s = s\<lparr>interest_rate := v\<rparr>"
| "set_scenario_field Internship_length_months v s = s\<lparr>internship_length_months := v\<rparr>"

text \<open>
  \<open>handleChange\<close> of ScenarioAdjustments: the new scenario handed to \<open>onChange\<close>. The
  test \<open>value ? ... : null\<close> is on the input's string, and only the empty string is a
  falsy string.
\<close>

definition ScenarioAdjustments_handleChange ::
  "scenario \<Rightarrow> scenario_field \<Rightarrow> string \<Rightarrow> scenario" where
  "ScenarioAdjustments_handleChange scenario name value =
     set_scenario_field name (if value \<noteq> [] then Some (parseFloat value) else None) scenario"


section \<open>FinancialProfileForm\<close>

record profile =
  credit_score :: jsnum
  annual_income :: jsnum
  monthly_budget :: jsnum
  lease_term_months :: jsnum
  salary :: jsnum
  employment_subsidies :: jsnum
  transportation_subsidy :: jsnum

datatype profile_field =
  Credit_score | Annual_income | Monthly_budget | Lease_term_months | Salary
  | Employment_subsidies | Transportation_subsidy

fun get_profile_field :: "profile_field \<Rightarrow> profile \<Rightarrow> jsnum" where
  "get_profile_field Credit_score p = credit_score p"
| "get_profile_field Annual_income p = annual_income p"
| "get_profile_field Monthly_budget p = monthly_budget p"
| "get_profile_field Lease_term_months p = lease_term_months p"
| "get_profile_field Salary p = salary p"
| "get_profile_field Employment_subsidies p = employment_subsidies p"
| "get_profile_field Transportation_subsidy p = transportation_subsidy p"

fun set_profile_field :: "profile_field \<Rightarrow> jsnum \<Rightarrow> profile \<Rightarrow> profile" where
  "set_profile_field Credit_score v p = p\<lparr>credit_score := v\<rparr>"
| "set_profile_field Annual_income v p = p\<lparr>annual_income := v\<rparr>"
| "set_profile_field Monthly_budget v p = p\<lparr>monthly_budget := v\<rparr>"
| "set_profile_field Lease_term_months v p = p\<lparr>lease_term_months := v\<rparr>"
| "set_profile_field Salary v p = p\<lparr>salary := v\<rparr>"
| "set_profile_field Employment_subsidies v p = p\<lparr>employment_subsidies := v\<rparr>"
| "set_profile_field Transportation_subsidy v p = p\<lparr>transportation_subsidy := v\<rparr>"

text \<open>The initial \<open>formData\<close>: \<open>initialValues?.credit_score || 700\<close> and so on.\<close>

definition FinancialProfileForm_initial :: "profile option \<Rightarrow> profile" where
  "FinancialProfileForm_initial initialValues =
     (case initialValues of
        None \<Rightarrow>
          \<lparr>credit_score = Fin 700, annual_income = Fin 60000, monthly_budget = Fin 500,
           lease_term_months = Fin 36, salary = Fin 60000, employment_subsidies = Fin 0,
           transportation_subsidy = Fin 0\<rparr>
      | Some iv \<Rightarrow>
          \<lparr>credit_score = or_num (credit_score iv) (Fin 700),
           annual_income = or_num (annual_income iv) (Fin 60000),
           monthly_budget = or_num (monthly_budget iv) (Fin 500),
           lease_term_months = or_num (lease_term_months iv) (Fin 36),
           salary = or_num (salary iv) (Fin 60000),
           employment_subsidies = or_num (employment_subsidies iv) (Fin 0),
           transportation_subsidy = or_num (transportation_subsidy iv) (Fin 0)\<rparr>)"

text \<open>
  \<open>handleChange\<close> of FinancialProfileForm. It returns the new \<open>formData\<close> and the
  object passed to \<open>onSubmit\<close>; the handler calls \<open>onSubmit(newData)\<close> on every change,
  with no condition.
\<close>

definition FinancialProfileForm_handleChange ::
  "profile \<Rightarrow> profile_field \<Rightarrow> string \<Rightarrow> profile \<times> profile" where
  "FinancialProfileForm_handleChange formData name value =
     (let newData = set_profile_field name (or_num (parseFloat value) (Fin 0)) formData
      in (newData, newData))"


section \<open>VehiclePreferencesForm\<close>

text \<open>An element of \<open>data.models\<close>, the response of \<open>/api/toyota-models\<close>.\<close>

record model_entry =
  name :: string
  trims :: "string list"

text \<open>
  \<open>max_price\<close> holds the string typed into the input, and after a submit (the
  \<open>initialValues\<close> effect copies the submitted object back) a number or \<open>null\<close>.
\<close>

datatype price_value = PStr string | PNum jsnum | PNull

definition truthy_price :: "price_value \<Rightarrow> bool" where
  "truthy_price v = (case v of PStr s \<Rightarrow> s \<noteq> [] | PNum n \<Rightarrow> truthy_num n | PNull \<Rightarrow> False)"

text \<open>
  \<open>parseFloat\<close> of a \<open>max_price\<close>. The argument is converted to a string first; a
  number printed and read back is the same number, and \<open>"null"\<close> has no numeric
  prefix.
\<close>

definition parseFloat_price :: "price_value \<Rightarrow> jsnum" where
  "parseFloat_price v = (case v of PStr s \<Rightarrow> parseFloat s | PNum n \<Rightarrow> n | PNull \<Rightarrow> NaN)"

text \<open>\<open>formData\<close> and the submitted object have the same fields.\<close>

record preferences =
  make_field :: string
  model :: string
  trim :: string
  max_price :: price_value
  preferred_fuel_type :: string

text \<open>The inputs that fire change events; the \<open>make\<close> input is disabled.\<close>

datatype preferences_field = Model | Trim | Max_price | Preferred_fuel_type

fun set_preferences_field :: "preferences_field \<Rightarrow> string \<Rightarrow> preferences \<Rightarrow> preferences" where
  "set_preferences_field Model v d = d\<lparr>model := v\<rparr>"
| "set_preferences_field Trim v d = d\<lparr>trim := v\<rparr>"
| "set_preferences_field Max_price v d = d\<lparr>max_price := PStr v\<rparr>"
| "set_preferences_field Preferred_fuel_type v d = d\<lparr>preferred_fuel_type := v\<rparr>"

definition or_string :: "string \<Rightarrow> string \<Rightarrow> string" where
  "or_string a b = (if a \<noteq> [] then a else b)"

definition VehiclePreferencesForm_initial :: "preferences option \<Rightarrow> preferences" where
  "VehiclePreferencesForm_initial initialValues =
     (case initialValues of
        None \<Rightarrow>
          \<lparr>make_field = ''Toyota'', model = [], trim = [], max_price = PStr [],
           preferred_fuel_type = []\<rparr>
      | Some iv \<Rightarrow>
          \<lparr>make_field = or_string (make_field iv) ''Toyota'',
           model = or_string (model iv) [],
           trim = or_string (trim iv) [],
           max_price = (if truthy_price (max_price iv) then max_price iv else PStr []),
           preferred_fuel_type = or_string (preferred_fuel_type iv) []\<rparr>)"

text \<open>\<open>{...d, max_price: d.max_price ? parseFloat(d.max_price) : null}\<close>.\<close>

definition submitData_of :: "preferences \<Rightarrow> preferences" where
  "submitData_of d =
     d\<lparr>max_price :=
         (if truthy_price (max_price d) then PNum (parseFloat_price (max_price d)) else PNull)\<rparr>"

text \<open>
  \<open>handleChange\<close> of VehiclePreferencesForm: the new \<open>formData\<close>, and the object
  passed to \<open>onSubmit\<close> when the new model is not the empty string.
\<close>

definition VehiclePreferencesForm_handleChange ::
  "preferences \<Rightarrow> preferences_field \<Rightarrow> string \<Rightarrow> preferences \<times> preferences option" where
  "VehiclePreferencesForm_handleChange formData name' value =
     (let newData0 = set_preferences_field name' value formData;
          newData = (if name' = Model then newData0\<lparr>trim := []\<rparr> else newData0)
      in (newData, if model newData \<noteq> [] then Some (submitData_of newData) else None))"

definition VehiclePreferencesForm_handleSubmit :: "preferences \<Rightarrow> preferences" where
  "VehiclePreferencesForm_handleSubmit formData = submitData_of formData"

text \<open>
  The effect on \<open>[formData.model, models]\<close>: the new value of the \<open>trims\<close> state.
  \<open>Array.prototype.find\<close> returns the first match, as \<open>find\<close> does.
\<close>

definition trims_effect :: "preferences \<Rightarrow> model_entry list \<Rightarrow> string list \<Rightarrow> string list" where
  "trims_effect formData ms cur =
     (if model formData \<noteq> [] then
        (case find (\<lambda>m. name m = model formData) ms of
           Some selectedModel \<Rightarrow> trims selectedModel
         | None \<Rightarrow> cur)
      else cur)"


section \<open>App\<close>

text \<open>The initial value of the \<open>scenario\<close> state of App.\<close>

definition App_initial_scenario :: scenario where
  "App_initial_scenario =
     \<lparr>annual_miles = Some (Fin 12000), fuel_price_per_gallon = Some (Fin 3.50),
      internship_length_months = None, interest_rate = None\<rparr>"

text \<open>
  The state of the page: the three states of App that \<open>handleCalculate\<close> reads, and
  the states of the two forms. \<open>results\<close> and \<open>loading\<close> hold the server's answers
  and are left out.
\<close>

record page =
  financialProfile :: "profile option"
  vehiclePreferences :: "preferences option"
  scenario :: scenario
  profile_formData :: profile
  vehicle_formData :: preferences
  models :: "model_entry list"
  trims_state :: "string list"

definition page_initial :: page where
  "page_initial =
     \<lparr>financialProfile = None, vehiclePreferences = None, scenario = App_initial_scenario,
      profile_formData = FinancialProfileForm_initial None,
      vehicle_formData = VehiclePreferencesForm_initial None,
      models = [], trims_state = []\<rparr>"

text \<open>The five requests of \<open>handleCalculate\<close>, each with the fields of its body.\<close>

datatype request =
    Estimate_salary profile
  | Calculate_monthly_cost profile preferences scenario
  | Forecast_value preferences scenario nat
  | Affordability_index profile preferences scenario
  | Recommendations_request profile preferences scenario

datatype alert = Please_fill_in_all_required_fields

text \<open>
  \<open>handleCalculate\<close> up to the sending of the requests: the alert when a form has not
  submitted yet, else the five requests in the order of the \<open>Promise.all\<close> array.
\<close>

definition handleCalculate :: "page \<Rightarrow> alert + request list" where
  "handleCalculate a =
     (case financialProfile a of
        None \<Rightarrow> Inl Please_fill_in_all_required_fields
      | Some fp \<Rightarrow>
          (case vehiclePreferences a of
             None \<Rightarrow> Inl Please_fill_in_all_required_fields
           | Some vp \<Rightarrow>
               Inr [Estimate_salary fp,
                    Calculate_monthly_cost fp vp (scenario a),
                    Forecast_value vp (scenario a) 5,
                    Affordability_index fp vp (scenario a),
                    Recommendations_request fp vp (scenario a)]))"

fun years_ahead :: "request \<Rightarrow> nat option" where
  "years_ahead (Forecast_value vp sc n) = Some n"
| "years_ahead (Estimate_salary fp) = None"
| "years_ahead (Calculate_monthly_cost fp vp sc) = None"
| "years_ahead (Affordability_index fp vp sc) = None"
| "years_ahead (Recommendations_request fp vp sc) = None"


fun profile_of :: "request \<Rightarrow> profile option" where
  "profile_of (Forecast_value vp sc n) = None"
| "profile_of (Estimate_salary fp) = Some fp"
| "profile_of (Calculate_monthly_cost fp vp sc) = Some fp"
| "profile_of (Affordability_index fp vp sc) = Some fp"
| "profile_of (Recommendations_request fp vp sc) = Some fp"

subsection \<open>The events of the page\<close>

datatype event =
    Models_fetched
  | Profile_change profile_field string
  | Profile_submit
  | Vehicle_change preferences_field string
  | Vehicle_submit
  | Scenario_change scenario_field string

text \<open>
  What the rendered page offers: a select fires a change only with the value of one
  of its options. The model select lists the empty option and the fetched models, the
  trim select exists when a model is chosen and lists the empty option and the
  \<open>trims\<close> state, the fuel select has four fixed options.
\<close>

fun enabled :: "page \<Rightarrow> event \<Rightarrow> bool" where
  "enabled a (Vehicle_change Model v) = (v = [] \<or> v \<in> set (map name (models a)))"
| "enabled a (Vehicle_change Trim v) =
     (model (vehicle_formData a) \<noteq> [] \<and> (v = [] \<or> v \<in> set (trims_state a)))"
| "enabled a (Vehicle_change Preferred_fuel_type v) =
     (v \<in> set [[], ''gasoline'', ''hybrid'', ''electric''])"
| "enabled a (Vehicle_change Max_price v) = True"
| "enabled a Models_fetched = True"
| "enabled a (Profile_change f v) = True"
| "enabled a Profile_submit = True"
| "enabled a Vehicle_submit = True"
| "enabled a (Scenario_change f v) = True"

text \<open>
  One event, with the effects that run after it. \<open>cat\<close> is \<open>data.models\<close>, the
  answer of the server to the fetch of the models. After a submit the parent's state
  comes back as \<open>initialValues\<close> and its effect replaces \<open>formData\<close> by it.
\<close>

fun step :: "model_entry list \<Rightarrow> page \<Rightarrow> event \<Rightarrow> page" where
  "step cat a Models_fetched =
     a\<lparr>models := cat, trims_state := trims_effect (vehicle_formData a) cat (trims_state a)\<rparr>"
| "step cat a (Profile_change f v) =
     (let (newData, submitted) = FinancialProfileForm_handleChange (profile_formData a) f v
      in a\<lparr>financialProfile := Some submitted, profile_formData := submitted\<rparr>)"
| "step cat a Profile_submit =
     a\<lparr>financialProfile := Some (profile_formData a)\<rparr>"
| "step cat a (Vehicle_change f v) =
     (let (newData, submitted) = VehiclePreferencesForm_handleChange (vehicle_formData a) f v;
          ts = trims_effect newData (models a) (trims_state a)
      in case submitted of
           None \<Rightarrow> a\<lparr>vehicle_formData := newData, trims_state := ts\<rparr>
         | Some d \<Rightarrow> a\<lparr>vehiclePreferences := Some d, vehicle_formData := d, trims_state := ts\<rparr>)"
| "step cat a Vehicle_submit =
     (let d = VehiclePreferencesForm_handleSubmit (vehicle_formData a)
      in a\<lparr>vehiclePreferences := Some d, vehicle_formData := d\<rparr>)"
| "step cat a (Scenario_change f v) =
     a\<lparr>scenario := ScenarioAdjustments_handleChange (scenario a) f v\<rparr>"

text \<open>A run of events from a state; \<open>None\<close> when the page does not offer one of them.\<close>

fun exec :: "model_entry list \<Rightarrow> page \<Rightarrow> event list \<Rightarrow> page option" where
  "exec cat a [] = Some a"
| "exec cat a (e # es) = (if enabled a e then exec cat (step cat a e) es else None)"


section \<open>ValueForecastChart\<close>

text \<open>
  The forecast object as the component reads it; the numbers of a parsed response are
  finite. The \<open>factors\<close> object, which only feeds the line of assumptions, is left out.
\<close>

record forecast_point =
  year :: real
  adjusted_value :: real
  depreciation :: real

record forecast_scenarios =
  optimistic :: "real list"
  pessimistic :: "real list"

record forecast =
  forecast_curve :: "forecast_point list"
  scenarios :: forecast_scenarios
  initial_value :: real
  final_value :: real
  total_depreciation :: real
  total_depreciation_percentage :: real
  confidence_score :: real

text \<open>Reading \<open>xs[i]\<close>: \<open>undefined\<close>, here \<open>None\<close>, past the end of the array.\<close>

definition index_opt :: "'a list \<Rightarrow> nat \<Rightarrow> 'a option" where
  "index_opt xs i = (if i < length xs then Some (xs ! i) else None)"

record chart_row =
  chart_year :: real
  chart_base :: real
  chart_optimistic :: "real option"
  chart_pessimistic :: "real option"
  chart_depreciation :: real

text \<open>\<open>chartData\<close>: one row per point of the curve, in the order of the curve.\<close>

definition chartData :: "forecast \<Rightarrow> chart_row list" where
  "chartData f =
     map (\<lambda>(point, index).
            \<lparr>chart_year = year point,
             chart_base = adjusted_value point,
             chart_optimistic = index_opt (optimistic (scenarios f)) index,
             chart_pessimistic = index_opt (pessimistic (scenarios f)) index,
             chart_depreciation = depreciation point\<rparr>)
         (zip (forecast_curve f) [0..<length (forecast_curve f)])"

text \<open>The four summary cards under the chart: the fixed caption and the number shown.\<close>

definition summary_cards :: "forecast \<Rightarrow> (string \<times> real) list" where
  "summary_cards f =
     [(''Initial Value'', initial_value f),
      (''Projected Value (5 years)'', final_value f),
      (''Total Depreciation'', total_depreciation f),
      (''Confidence Score'', confidence_score f)]"


section \<open>AffordabilityIndex\<close>

definition getScoreColor :: "jsnum \<Rightarrow> string" where
  "getScoreColor score =
     (if ge_num score 90 then ''#4caf50''
      else if ge_num score 75 then ''#8bc34a''
      else if ge_num score 60 then ''#ffc107''
      else if ge_num score 40 then ''#ff9800''
      else ''#f44336'')"


section \<open>Recommendations\<close>

text \<open>
  An entry of \<open>recommendations.recommendations\<close>, with the fields the ranking and the
  card header use; the fields are prefixed because \<open>model\<close> and \<open>trim\<close> are fields of
  the preferences already.
\<close>

record recommendation =
  rec_model :: string
  rec_trim :: string
  rec_price :: real
  rec_monthly_payment :: real
  rec_overall_score :: real

record card =
  best_match :: bool
  shown :: recommendation

text \<open>
  The component: nothing when there is no list, else the count of the caption
  \<open>Top n recommendations\<close> and one card per entry in the order received, the entry at
  index 0 with the \<open>BEST MATCH\<close> badge.
\<close>

definition Recommendations :: "recommendation list option \<Rightarrow> (nat \<times> card list) option" where
  "Recommendations recommendations =
     (case recommendations of
        None \<Rightarrow> None
      | Some recs \<Rightarrow>
          Some (length recs,
                map (\<lambda>(rec, index). \<lparr>best_match = (index = 0), shown = rec\<rparr>)
                    (zip recs [0..<length recs])))"


section \<open>The analytics core, from its specification\<close>

text \<open>
  The server modules (cost calculator, value forecaster, affordability index,
  recommendation engine, model listing) are not among the sources. The definitions of
  this section follow the specification of the interface the components above consume.
\<close>

text \<open>
  Modelled from the spec: the error kinds of the core that the definitions below
  return. The server modules that raise them are missing from the sources.
\<close>

datatype core_error = ValidationError | NotFoundError

subsection \<open>Model listing\<close>

text \<open>
  Modelled from the spec: the ReferenceCatalog, a static table of per-model constants
  with the trims of each model, in a fixed order.
\<close>

record catalog_model =
  catalog_name :: string
  catalog_trims :: "string list"
  base_price :: real
  mpg :: real
  annual_depreciation_rate :: real
  reliability_rating :: real
  electrified :: bool

text \<open>
  Modelled from the spec: \<open>list_models\<close>, the read of the ReferenceCatalog that
  returns an ordered sequence of \<open>{name, trims}\<close>. The function itself is missing
  from the sources.
\<close>

definition list_models :: "catalog_model list \<Rightarrow> model_entry list" where
  "list_models catalog = map (\<lambda>c. \<lparr>name = catalog_name c, trims = catalog_trims c\<rparr>) catalog"

subsection \<open>Value forecaster\<close>

text \<open>
  Modelled from the spec: the VehicleConfiguration, and the functions that the
  specification of the forecaster describes only by their monotonicity (effective
  depreciation rate per year, residual floor, band width, confidence decay), taken as
  parameters.
\<close>

record configuration =
  cfg_model :: string
  cfg_trim :: string
  cfg_price :: real
  cfg_fuelType :: string

text \<open>
  Modelled from the spec: the tables of the forecaster, whose constants and formulas
  the specification leaves open. The forecaster module is missing from the sources.
\<close>

record forecaster_tables =
  effectiveRate :: "configuration \<Rightarrow> scenario \<Rightarrow> nat \<Rightarrow> real"
  floor_fraction :: "configuration \<Rightarrow> real"
  bandWidth :: "nat \<Rightarrow> real"
  decay :: "nat \<Rightarrow> real"

text \<open>
  Modelled from the spec: \<open>adjustedValue[0]\<close> is the price, and
  \<open>adjustedValue[y] = adjustedValue[y-1] * (1 - effectiveRate[y])\<close>, floored at the
  residual floor. The forecaster module is missing from the sources.
\<close>

fun adjustedValue :: "forecaster_tables \<Rightarrow> configuration \<Rightarrow> scenario \<Rightarrow> nat \<Rightarrow> real" where
  "adjustedValue T c s 0 = cfg_price c"
| "adjustedValue T c s (Suc y) =
     max (floor_fraction T c * cfg_price c)
         (adjustedValue T c s y * (1 - effectiveRate T c s (Suc y)))"

text \<open>
  Modelled from the spec: \<open>forecast(configuration, scenario, yearsAhead)\<close>, with a
  point for each year \<open>0..yearsAhead\<close> and the 68% band around it. The forecaster
  module is missing from the sources.
\<close>

definition ValueForecaster_forecast ::
  "forecaster_tables \<Rightarrow> configuration \<Rightarrow> scenario \<Rightarrow> nat \<Rightarrow> forecast" where
  "ValueForecaster_forecast T c s yearsAhead =
     \<lparr>forecast_curve =
        map (\<lambda>y. \<lparr>year = real y, adjusted_value = adjustedValue T c s y,
                  depreciation = cfg_price c - adjustedValue T c s y\<rparr>)
            [0..<Suc yearsAhead],
      scenarios =
        \<lparr>optimistic = map (\<lambda>y. adjustedValue T c s y * (1 + bandWidth T y)) [0..<Suc yearsAhead],
         pessimistic = map (\<lambda>y. adjustedValue T c s y * (1 - bandWidth T y)) [0..<Suc yearsAhead]\<rparr>,
      initial_value = cfg_price c,
      final_value = adjustedValue T c s yearsAhead,
      total_depreciation = cfg_price c - adjustedValue T c s yearsAhead,
      total_depreciation_percentage =
        (cfg_price c - adjustedValue T c s yearsAhead) / cfg_price c * 100,
      confidence_score = 100 * decay T yearsAhead\<rparr>"

subsection \<open>Affordability rating\<close>

text \<open>
  Modelled from the spec: the five ratings of an AffordabilityResult. The scoring
  module is missing from the sources.
\<close>

datatype rating = Excellent | Good | Fair | Poor | Very_Poor

text \<open>
  Modelled from the spec: the rating buckets of the AffordabilityIndex, at least 90
  Excellent, from 75 Good, from 60 Fair, from 40 Poor, below 40 Very Poor. The scoring
  module is missing from the sources.
\<close>

definition rating_of :: "real \<Rightarrow> rating" where
  "rating_of overallScore =
     (if overallScore \<ge> 90 then Excellent
      else if overallScore \<ge> 75 then Good
      else if overallScore \<ge> 60 then Fair
      else if overallScore \<ge> 40 then Poor
      else Very_Poor)"

text \<open>
  Modelled from the spec: the canned recommendation of each bucket, with the wording of
  the project summary. The scoring module is missing from the sources.
\<close>

fun recommendation_text :: "rating \<Rightarrow> string" where
  "recommendation_text Excellent = ''Highly recommended''"
| "recommendation_text Good = ''Recommended with minor adjustments''"
| "recommendation_text Fair = ''Consider reducing price/down payment''"
| "recommendation_text Poor = ''Not recommended''"
| "recommendation_text Very_Poor = ''Strongly not recommended''"

text \<open>
  Modelled from the spec: the rating and the recommendation of an AffordabilityResult
  as a function of its overall score.
\<close>

definition AffordabilityIndex_rate :: "real \<Rightarrow> rating \<times> string" where
  "AffordabilityIndex_rate overallScore =
     (rating_of overallScore, recommendation_text (rating_of overallScore))"

subsection \<open>Recommendation ranking\<close>

text \<open>
  Modelled from the spec: the order of the ranking, descending by overall score, ties
  by ascending price, then by model name in lexicographic order.
\<close>

definition ranks_before :: "recommendation \<Rightarrow> recommendation \<Rightarrow> bool" where
  "ranks_before a b =
     (rec_overall_score a > rec_overall_score b \<or>
      (rec_overall_score a = rec_overall_score b \<and>
         (rec_price a < rec_price b \<or>
          (rec_price a = rec_price b \<and> rec_model a \<le> rec_model b))))"

text \<open>
  Modelled from the spec: the sort of the candidates by that order, as an insertion
  sort. The recommendation engine is missing from the sources.
\<close>

fun insert_ranked :: "recommendation \<Rightarrow> recommendation list \<Rightarrow> recommendation list" where
  "insert_ranked x [] = [x]"
| "insert_ranked x (y # ys) =
     (if ranks_before x y then x # y # ys else y # insert_ranked x ys)"

fun sort_ranked :: "recommendation list \<Rightarrow> recommendation list" where
  "sort_ranked [] = []"
| "sort_ranked (x # xs) = insert_ranked x (sort_ranked xs)"

text \<open>
  Modelled from the spec: the last stage of \<open>recommend\<close> on the scored candidates:
  NotFoundError when there is none, else the sorted candidates truncated to the top
  10. The recommendation engine is missing from the sources.
\<close>

definition recommend_ranking :: "recommendation list \<Rightarrow> core_error + recommendation list" where
  "recommend_ranking candidates =
     (if candidates = [] then Inl NotFoundError else Inr (take 10 (sort_ranked candidates)))"

text \<open>
  Modelled from the spec: the three sort keys of an entry (score descending, price,
  model name), compared as a triple in lexicographic order.
\<close>

definition ranking_key :: "recommendation \<Rightarrow> real \<times> real \<times> string" where
  "ranking_key r = (- rec_overall_score r, rec_price r, rec_model r)"


section \<open>Invariants of the page\<close>

text \<open>
  The trim of a submitted object is the empty string (no trim chosen) or a trim of
  the first catalog entry with the object's model name.
\<close>

definition trim_ok :: "model_entry list \<Rightarrow> preferences \<Rightarrow> bool" where
  "trim_ok cat d =
     (trim d = [] \<or>
      (case find (\<lambda>m. name m = model d) cat of
         None \<Rightarrow> False
       | Some m \<Rightarrow> trim d \<in> set (trims m)))"

definition page_inv :: "model_entry list \<Rightarrow> page \<Rightarrow> bool" where
  "page_inv cat a =
     ((models a = [] \<or> models a = cat) \<and>
      (model (vehicle_formData a) \<noteq> [] \<longrightarrow>
         models a = cat \<and>
         (\<exists>m. find (\<lambda>m. name m = model (vehicle_formData a)) cat = Some m \<and>
              trims_state a = trims m)) \<and>
      (trim (vehicle_formData a) \<noteq> [] \<longrightarrow>
         model (vehicle_formData a) \<noteq> [] \<and>
         trim (vehicle_formData a) \<in> set (trims_state a)) \<and>
      (\<forall>d. vehiclePreferences a = Some d \<longrightarrow> trim_ok cat d))"

text \<open>The limits written on the inputs of the profile form (\<open>min\<close> and \<open>max\<close>).\<close>

fun within_input_limits :: "profile_field \<Rightarrow> jsnum \<Rightarrow> bool" where
  "within_input_limits Credit_score x = (ge_num x 300 \<and> ge_num (negate x) (- 850))"
| "within_input_limits Lease_term_months x = (ge_num x 12 \<and> ge_num (negate x) (- 72))"
| "within_input_limits Annual_income x = ge_num x 0"
| "within_input_limits Monthly_budget x = ge_num x 0"
| "within_input_limits Salary x = ge_num x 0"
| "within_input_limits Employment_subsidies x = ge_num x 0"
| "within_input_limits Transportation_subsidy x = ge_num x 0"



text \<open>A catalog of one model, for the examples.\<close>

definition camry_catalog :: "model_entry list" where
  "camry_catalog = [\<lparr>name = ''Camry'', trims = [''LE'', ''SE'']\<rparr>]"

text \<open>
  The page after the models have arrived, the model Camry and its trim SE have been
  chosen and the credit score has been cleared.
\<close>

definition example_events :: "event list" where
  "example_events =
     [Models_fetched, Vehicle_change Model ''Camry'', Vehicle_change Trim ''SE'',
      Profile_change Credit_score []]"

definition example_page :: page where
  "example_page =
     \<lparr>financialProfile =
        Some \<lparr>credit_score = Fin 0, annual_income = Fin 60000, monthly_budget = Fin 500,
              lease_term_months = Fin 36, salary = Fin 60000,
              employment_subsidies = Fin 0, transportation_subsidy = Fin 0\<rparr>,
      vehiclePreferences =
        Some \<lparr>make_field = ''Toyota'', model = ''Camry'', trim = ''SE'',
              max_price = PNull, preferred_fuel_type = []\<rparr>,
      scenario = App_initial_scenario,
      profile_formData =
        \<lparr>credit_score = Fin 0, annual_income = Fin 60000, monthly_budget = Fin 500,
         lease_term_months = Fin 36, salary = Fin 60000,
         employment_subsidies = Fin 0, transportation_subsidy = Fin 0\<rparr>,
      vehicle_formData =
        \<lparr>make_field = ''Toyota'', model = ''Camry'', trim = ''SE'',
         max_price = PNull, preferred_fuel_type = []\<rparr>,
      models = camry_catalog, trims_state = [''LE'', ''SE'']\<rparr>"

text \<open>A reference catalog of one model, whose listing is the catalog above.\<close>

definition example_reference_catalog :: "catalog_model list" where
  "example_reference_catalog =
     [\<lparr>catalog_name = ''Camry'', catalog_trims = [''LE'', ''SE''], base_price = 28000,
       mpg = 32, annual_depreciation_rate = 0.12, reliability_rating = 90,
       electrified = False\<rparr>]"

text \<open>Three scored candidates, two of them tied on score and price.\<close>

definition corolla_le :: recommendation where
  "corolla_le =
     \<lparr>rec_model = ''Corolla'', rec_trim = ''LE'', rec_price = 22000,
      rec_monthly_payment = 400, rec_overall_score = 80\<rparr>"

definition camry_se :: recommendation where
  "camry_se =
     \<lparr>rec_model = ''Camry'', rec_trim = ''SE'', rec_price = 28000,
      rec_monthly_payment = 500, rec_overall_score = 85\<rparr>"

definition camry_le :: recommendation where
  "camry_le =
     \<lparr>rec_model = ''Camry'', rec_trim = ''LE'', rec_price = 22000,
      rec_monthly_payment = 410, rec_overall_score = 80\<rparr>"


section \<open>Properties\<close>

subsection \<open>Evaluating \<open>parseFloat\<close>\<close>

lemmas parseFloat_defs = parseFloat_def unsigned_literal_def mantissa_def exponent_def
  signed_int_def scale10_def digits_val_def digit_val_def is_digit_def is_ws_def negate_def

lemma parseFloat_empty: "parseFloat [] = NaN"
  by (simp add: parseFloat_def)

lemma parseFloat_zero: "parseFloat ''0'' = Fin 0"
  by (simp add: parseFloat_defs)

lemma parseFloat_letters: "parseFloat ''abc'' = NaN"
  by (simp add: parseFloat_defs)

subsection \<open>Field updates\<close>

lemma get_set_scenario_field_same: "get_scenario_field f (set_scenario_field f v s) = v"
  by (cases f) simp_all


lemma get_set_profile_field_same: "get_profile_field f (set_profile_field f v p) = v"
  by (cases f) simp_all

lemma get_set_profile_field_other:
  "g \<noteq> f \<Longrightarrow> get_profile_field g (set_profile_field f v p) = get_profile_field g p"
  by (cases f; cases g) simp_all

subsection \<open>The requests of \<open>handleCalculate\<close>\<close>

lemma handleCalculate_Inr:
  "handleCalculate a = Inr reqs \<longleftrightarrow>
     (\<exists>fp vp. financialProfile a = Some fp \<and> vehiclePreferences a = Some vp \<and>
        reqs = [Estimate_salary fp, Calculate_monthly_cost fp vp (scenario a),
                Forecast_value vp (scenario a) 5, Affordability_index fp vp (scenario a),
                Recommendations_request fp vp (scenario a)])"
  by (auto simp: handleCalculate_def split: option.splits)

lemma exec_example: "exec camry_catalog page_initial example_events = Some example_page"
  by (simp add: example_events_def example_page_def camry_catalog_def page_initial_def
      VehiclePreferencesForm_initial_def FinancialProfileForm_initial_def
      VehiclePreferencesForm_handleChange_def FinancialProfileForm_handleChange_def
      Let_def trims_effect_def submitData_of_def truthy_price_def parseFloat_empty
      or_num_def truthy_num_def)

subsection \<open>Scenario edits\<close>








subsection \<open>The forecast horizon\<close>

text \<open>
  Claim C8. Whatever the state of the page, when \<open>handleCalculate\<close> sends its requests
  exactly one of them carries \<open>years_ahead\<close>, and its value is 5; the state has no
  field for the horizon. The card that shows the final value of every forecast is
  captioned as a projection over 5 years.
\<close>

theorem C8_forecast_horizon_is_five:
  "handleCalculate a = Inr reqs \<Longrightarrow>
     List.map_filter years_ahead reqs = [5]
     \<and> summary_cards fc ! 1 = (''Projected Value (5 years)'', final_value fc)"
  by (auto simp: handleCalculate_Inr List.map_filter_def summary_cards_def)

text \<open>
  Witness of C8: the page of the example sends its five requests, and the one for the
  forecast asks for 5 years.
\<close>

theorem C8_forecast_horizon_is_five_witness:
  "exec camry_catalog page_initial example_events = Some example_page
   \<and> (\<exists>reqs. handleCalculate example_page = Inr reqs
          \<and> List.map_filter years_ahead reqs = [5])"
proof -
  obtain reqs where r: "handleCalculate example_page = Inr reqs"
    by (simp add: handleCalculate_def example_page_def)
  from C8_forecast_horizon_is_five[OF r] r exec_example show ?thesis by blast
qed

subsection \<open>Edits of the scenario fields\<close>

text \<open>
  Claim C9 as stated, refuted: the input \<open>0\<close> in the field of the annual miles is
  stored as the number 0 and is not sent as \<open>null\<close>.
\<close>

theorem C9_zero_input_is_not_null:
  "get_scenario_field Annual_miles
     (ScenarioAdjustments_handleChange App_initial_scenario Annual_miles ''0'') = Some (Fin 0)
   \<and> JSON_number (get_scenario_field Annual_miles
        (ScenarioAdjustments_handleChange App_initial_scenario Annual_miles ''0'')) \<noteq> JNull"
  by (simp add: ScenarioAdjustments_handleChange_def parseFloat_zero JSON_number_def)

text \<open>
  Claim C9, amended. For every scenario field, the empty input is stored and sent as
  \<open>null\<close>; every other input is stored as the number \<open>parseFloat\<close> reads from it and
  sent as that number when it is finite. The test is on the string, not on the parsed
  number, so the input \<open>0\<close> is stored and sent as the number 0.
\<close>

theorem C9_only_the_empty_input_becomes_null:
  "get_scenario_field f (ScenarioAdjustments_handleChange s f v)
     = (if v = [] then None else Some (parseFloat v))
   \<and> JSON_number (get_scenario_field f (ScenarioAdjustments_handleChange s f v))
     = (if v = [] then JNull
        else case parseFloat v of
               Fin r \<Rightarrow> JNumber r | NaN \<Rightarrow> JNull | PosInf \<Rightarrow> JNull | NegInf \<Rightarrow> JNull)
   \<and> JSON_number (get_scenario_field f (ScenarioAdjustments_handleChange s f ''0'')) = JNumber 0"
  by (simp add: ScenarioAdjustments_handleChange_def get_set_scenario_field_same
      parseFloat_zero JSON_number_def)

subsection \<open>Edits of the profile fields\<close>

text \<open>
  Claim C10. When the input of a profile field is cleared, or has no numeric prefix
  (\<open>parseFloat\<close> gives \<open>NaN\<close>), the handler stores 0 in that field and submits the
  profile at once; the change is always possible, the submitted profile becomes the
  profile of the application, and with preferences present \<open>handleCalculate\<close> sends it
  in its four profile requests without an alert. For the credit score and the lease
  term the value 0 is outside the limits written on the inputs.
\<close>

theorem C10_cleared_profile_input_is_submitted_as_zero:
  assumes "parseFloat v = NaN"
  shows "FinancialProfileForm_handleChange fd f v
           = (set_profile_field f (Fin 0) fd, set_profile_field f (Fin 0) fd)
         \<and> get_profile_field f (snd (FinancialProfileForm_handleChange fd f v)) = Fin 0
         \<and> enabled a (Profile_change f v)
         \<and> financialProfile (step cat a (Profile_change f v))
             = Some (set_profile_field f (Fin 0) (profile_formData a))
         \<and> (vehiclePreferences a \<noteq> None \<longrightarrow>
              (\<exists>reqs. handleCalculate (step cat a (Profile_change f v)) = Inr reqs
                 \<and> List.map_filter profile_of reqs
                     = replicate 4 (set_profile_field f (Fin 0) (profile_formData a))))
         \<and> \<not> within_input_limits Credit_score (Fin 0)
         \<and> \<not> within_input_limits Lease_term_months (Fin 0)
         \<and> parseFloat [] = NaN"
proof -
  have h: "\<And>d. FinancialProfileForm_handleChange d f v
             = (set_profile_field f (Fin 0) d, set_profile_field f (Fin 0) d)"
    using assms
    by (simp add: FinancialProfileForm_handleChange_def or_num_def truthy_num_def Let_def)
  have "vehiclePreferences a \<noteq> None \<longrightarrow>
          (\<exists>reqs. handleCalculate (step cat a (Profile_change f v)) = Inr reqs
             \<and> List.map_filter profile_of reqs
                 = replicate 4 (set_profile_field f (Fin 0) (profile_formData a)))"
    by (auto simp: h handleCalculate_def List.map_filter_def numeral_eq_Suc)
  then show ?thesis
    by (simp add: h get_set_profile_field_same ge_num_def parseFloat_empty)
qed

text \<open>
  Witness of C10: clearing the credit score of the initial form submits a profile
  whose credit score is 0, the other fields unchanged; typing letters into the salary
  stores 0 as well; and on the page of the example, where preferences are present,
  clearing the lease term sends the profile with lease term 0.
\<close>

theorem C10_cleared_profile_input_is_submitted_as_zero_witness:
  "parseFloat [] = NaN
   \<and> snd (FinancialProfileForm_handleChange (FinancialProfileForm_initial None) Credit_score [])
       = \<lparr>credit_score = Fin 0, annual_income = Fin 60000, monthly_budget = Fin 500,
          lease_term_months = Fin 36, salary = Fin 60000, employment_subsidies = Fin 0,
          transportation_subsidy = Fin 0\<rparr>
   \<and> parseFloat ''abc'' = NaN
   \<and> get_profile_field Salary
         (snd (FinancialProfileForm_handleChange (FinancialProfileForm_initial None)
                 Salary ''abc'')) = Fin 0
   \<and> vehiclePreferences example_page \<noteq> None
   \<and> (\<exists>reqs. handleCalculate (step camry_catalog example_page
                 (Profile_change Lease_term_months [])) = Inr reqs
          \<and> List.map_filter profile_of reqs
              = replicate 4
                  \<lparr>credit_score = Fin 0, annual_income = Fin 60000, monthly_budget = Fin 500,
                   lease_term_months = Fin 0, salary = Fin 60000,
                   employment_subsidies = Fin 0, transportation_subsidy = Fin 0\<rparr>)"
proof -
  have v: "vehiclePreferences example_page \<noteq> None" by (simp add: example_page_def)
  have p: "set_profile_field Lease_term_months (Fin 0) (profile_formData example_page)
             = \<lparr>credit_score = Fin 0, annual_income = Fin 60000, monthly_budget = Fin 500,
                lease_term_months = Fin 0, salary = Fin 60000,
                employment_subsidies = Fin 0, transportation_subsidy = Fin 0\<rparr>"
    by (simp add: example_page_def)
  from C10_cleared_profile_input_is_submitted_as_zero
         [OF parseFloat_empty, of "FinancialProfileForm_initial None" Credit_score]
  have 1: "snd (FinancialProfileForm_handleChange (FinancialProfileForm_initial None)
                  Credit_score [])
       = \<lparr>credit_score = Fin 0, annual_income = Fin 60000, monthly_budget = Fin 500,
          lease_term_months = Fin 36, salary = Fin 60000, employment_subsidies = Fin 0,
          transportation_subsidy = Fin 0\<rparr>"
    by (simp add: FinancialProfileForm_initial_def)
  from C10_cleared_profile_input_is_submitted_as_zero
         [OF parseFloat_empty, of "FinancialProfileForm_initial None" Lease_term_months
          example_page camry_catalog] v
  have "\<exists>reqs. handleCalculate (step camry_catalog example_page
                 (Profile_change Lease_term_months [])) = Inr reqs
          \<and> List.map_filter profile_of reqs
              = replicate 4
                  (set_profile_field Lease_term_months (Fin 0) (profile_formData example_page))"
    by blast
  then have 2: "\<exists>reqs. handleCalculate (step camry_catalog example_page
                 (Profile_change Lease_term_months [])) = Inr reqs
          \<and> List.map_filter profile_of reqs
              = replicate 4
                  \<lparr>credit_score = Fin 0, annual_income = Fin 60000, monthly_budget = Fin 500,
                   lease_term_months = Fin 0, salary = Fin 60000,
                   employment_subsidies = Fin 0, transportation_subsidy = Fin 0\<rparr>"
    by (simp only: p)
  from C10_cleared_profile_input_is_submitted_as_zero
         [OF parseFloat_letters, of "FinancialProfileForm_initial None" Salary]
  have 3: "get_profile_field Salary
         (snd (FinancialProfileForm_handleChange (FinancialProfileForm_initial None)
                 Salary ''abc'')) = Fin 0"
    by blast
  from 1 2 3 v parseFloat_empty parseFloat_letters show ?thesis
    by - (intro conjI; assumption)
qed

subsection \<open>The trim of a submitted configuration\<close>

lemma find_name_Some:
  "v \<in> set (map name ms) \<Longrightarrow> \<exists>m. find (\<lambda>m. name m = v) ms = Some m"
  by (cases "find (\<lambda>m. name m = v) ms") (auto simp: find_None_iff)

lemma model_submitData_of: "model (submitData_of d) = model d"
  by (simp add: submitData_of_def)

lemma trim_submitData_of: "trim (submitData_of d) = trim d"
  by (simp add: submitData_of_def)

lemmas vehicle_defs = VehiclePreferencesForm_handleChange_def Let_def trims_effect_def
  trim_ok_def model_submitData_of trim_submitData_of

lemma page_inv_initial: "page_inv cat page_initial"
  by (simp add: page_inv_def page_initial_def VehiclePreferencesForm_initial_def)

lemma page_inv_step:
  assumes "page_inv cat a" and "enabled a e"
  shows "page_inv cat (step cat a e)"
proof (cases e)
  case Models_fetched
  with assms show ?thesis
    by (auto simp: page_inv_def trims_effect_def)
next
  case (Profile_change f v)
  with assms show ?thesis
    by (auto simp: page_inv_def FinancialProfileForm_handleChange_def Let_def)
next
  case Profile_submit
  with assms show ?thesis by (auto simp: page_inv_def)
next
  case (Vehicle_change f v)
  show ?thesis
  proof (cases f)
    case Model
    show ?thesis
    proof (cases "v = []")
      case True
      with assms Vehicle_change Model show ?thesis
        by (auto simp: page_inv_def vehicle_defs)
    next
      case False
      with assms Vehicle_change Model have mem: "v \<in> set (map name (models a))" by simp
      then have "models a \<noteq> []" by auto
      with assms have mc: "models a = cat" by (auto simp: page_inv_def)
      from find_name_Some[OF mem] mc obtain m where m: "find (\<lambda>m. name m = v) cat = Some m"
        by auto
      from assms(1) have old: "\<forall>d. vehiclePreferences a = Some d \<longrightarrow> trim_ok cat d"
        by (simp add: page_inv_def)
      show ?thesis using False mc m old Vehicle_change Model
        by (auto simp: page_inv_def vehicle_defs)
    qed
  next
    case Trim
    with assms Vehicle_change show ?thesis
      by (auto simp: page_inv_def vehicle_defs)
  next
    case Max_price
    with assms Vehicle_change show ?thesis
      by (auto simp: page_inv_def vehicle_defs)
  next
    case Preferred_fuel_type
    with assms Vehicle_change show ?thesis
      by (auto simp: page_inv_def vehicle_defs)
  qed
next
  case Vehicle_submit
  with assms show ?thesis
    by (auto simp: page_inv_def VehiclePreferencesForm_handleSubmit_def vehicle_defs)
next
  case (Scenario_change f v)
  with assms show ?thesis by (auto simp: page_inv_def)
qed

lemma page_inv_exec:
  "page_inv cat a0 \<Longrightarrow> exec cat a0 es = Some a \<Longrightarrow> page_inv cat a"
proof (induction es arbitrary: a0)
  case Nil
  then show ?case by simp
next
  case (Cons e es)
  then show ?case by (auto split: if_splits intro: page_inv_step)
qed

text \<open>
  Claim C6 as stated, refuted: once the models have arrived, choosing the model Camry
  submits a configuration whose trim is the empty string, which is none of the trims
  of Camry.
\<close>

theorem C6_model_change_submits_empty_trim:
  "(case exec camry_catalog page_initial [Models_fetched, Vehicle_change Model ''Camry''] of
      None \<Rightarrow> False
    | Some a \<Rightarrow>
        (case vehiclePreferences a of
           None \<Rightarrow> False
         | Some d \<Rightarrow>
             model d = ''Camry'' \<and> trim d = []
             \<and> find (\<lambda>m. name m = model d) camry_catalog
                 = Some \<lparr>name = ''Camry'', trims = [''LE'', ''SE'']\<rparr>
             \<and> trim d \<notin> set [''LE'', ''SE'']))"
  by (simp add: camry_catalog_def page_initial_def VehiclePreferencesForm_initial_def
      VehiclePreferencesForm_handleChange_def Let_def trims_effect_def submitData_of_def)

text \<open>
  Claim C6, amended. With the server answering the fetch of the models by the catalog
  \<open>cat\<close>, every configuration the form submits, after any run of events the page
  offers, has a trim that is the empty string (no trim chosen) or a trim of the
  catalog entry of its model. A change of the model sets the trim to the empty
  string, in the form and in the configuration submitted with that change.
\<close>

theorem C6_submitted_trim_is_empty_or_of_the_model:
  assumes "exec cat page_initial es = Some a" and "vehiclePreferences a = Some d"
  shows "(trim d = [] \<or>
            (\<exists>m. find (\<lambda>m. name m = model d) cat = Some m \<and> trim d \<in> set (trims m)))
         \<and> trim (fst (VehiclePreferencesForm_handleChange fd Model v)) = []
         \<and> (\<forall>d'. snd (VehiclePreferencesForm_handleChange fd Model v) = Some d'
                \<longrightarrow> trim d' = [])"
proof -
  from page_inv_exec[OF page_inv_initial assms(1)] assms(2) have "trim_ok cat d"
    by (simp add: page_inv_def)
  then have "trim d = [] \<or>
      (\<exists>m. find (\<lambda>m. name m = model d) cat = Some m \<and> trim d \<in> set (trims m))"
    by (auto simp: trim_ok_def split: option.splits)
  then show ?thesis
    by (auto simp: VehiclePreferencesForm_handleChange_def Let_def trim_submitData_of
        split: if_splits)
qed

text \<open>
  Witness of C6: on the page of the example the submitted configuration is the Camry
  with the trim SE, a trim of the Camry; from there a change of the model to the
  empty option clears the trim.
\<close>

theorem C6_submitted_trim_is_empty_or_of_the_model_witness:
  "exec camry_catalog page_initial example_events = Some example_page
   \<and> (\<exists>d m. vehiclePreferences example_page = Some d \<and> trim d = ''SE''
          \<and> find (\<lambda>m. name m = model d) camry_catalog = Some m \<and> trim d \<in> set (trims m))
   \<and> trim (fst (VehiclePreferencesForm_handleChange (vehicle_formData example_page) Model []))
       = []"
proof -
  obtain d where d: "vehiclePreferences example_page = Some d" "trim d = ''SE''"
    by (simp add: example_page_def)
  from C6_submitted_trim_is_empty_or_of_the_model[OF exec_example d(1)] d exec_example
  show ?thesis by auto
qed

subsection \<open>The chart of the forecast\<close>

lemma length_chartData: "length (chartData f) = length (forecast_curve f)"
  by (simp add: chartData_def)

lemma map_index_opt: "map (index_opt xs) [0..<length xs] = map Some xs"
  by (rule nth_equalityI) (simp_all add: index_opt_def)

lemma chart_optimistic_column:
  "map chart_optimistic (chartData f)
     = map (index_opt (optimistic (scenarios f))) [0..<length (forecast_curve f)]"
  by (rule nth_equalityI) (simp_all add: chartData_def)

lemma chart_pessimistic_column:
  "map chart_pessimistic (chartData f)
     = map (index_opt (pessimistic (scenarios f))) [0..<length (forecast_curve f)]"
  by (rule nth_equalityI) (simp_all add: chartData_def)

text \<open>
  Claim C2. The forecast for \<open>yearsAhead = N\<close> has a curve of exactly \<open>N + 1\<close> points,
  for the years \<open>0..N\<close> in order, and the optimistic and pessimistic sequences have
  that length too; so \<open>chartData\<close> has \<open>N + 1\<close> rows and each row reads a value of
  both sequences, never past their end.
\<close>

theorem C2_forecast_curve_and_scenarios_have_N_plus_1_entries:
  "length (forecast_curve (ValueForecaster_forecast T c s N)) = N + 1
   \<and> map year (forecast_curve (ValueForecaster_forecast T c s N)) = map real [0..<N + 1]
   \<and> length (optimistic (scenarios (ValueForecaster_forecast T c s N))) = N + 1
   \<and> length (pessimistic (scenarios (ValueForecaster_forecast T c s N))) = N + 1
   \<and> length (chartData (ValueForecaster_forecast T c s N)) = N + 1
   \<and> map chart_optimistic (chartData (ValueForecaster_forecast T c s N))
       = map Some (optimistic (scenarios (ValueForecaster_forecast T c s N)))
   \<and> map chart_pessimistic (chartData (ValueForecaster_forecast T c s N))
       = map Some (pessimistic (scenarios (ValueForecaster_forecast T c s N)))"
proof -
  let ?F = "ValueForecaster_forecast T c s N"
  have len: "length (forecast_curve ?F) = N + 1"
    "length (optimistic (scenarios ?F)) = N + 1"
    "length (pessimistic (scenarios ?F)) = N + 1"
    by (simp_all add: ValueForecaster_forecast_def)
  have years: "map year (forecast_curve ?F) = map real [0..<N + 1]"
    by (simp add: ValueForecaster_forecast_def comp_def)
  have opt: "map chart_optimistic (chartData ?F) = map Some (optimistic (scenarios ?F))"
    using map_index_opt[of "optimistic (scenarios ?F)"]
    by (simp only: chart_optimistic_column len)
  have pes: "map chart_pessimistic (chartData ?F) = map Some (pessimistic (scenarios ?F))"
    using map_index_opt[of "pessimistic (scenarios ?F)"]
    by (simp only: chart_pessimistic_column len)
  from len years opt pes show ?thesis
    by (simp only: length_chartData simp_thms)
qed

subsection \<open>The rating of a score\<close>

text \<open>
  Claim C3. The rating is a function of the overall score with the thresholds 90, 75,
  60 and 40, each bucket closed below and open above: 90 is Excellent and 89.999 is
  Good. The recommendation is the fixed text of the bucket. The colour the component
  gives a score separates exactly the same buckets.
\<close>

theorem C3_rating_follows_the_threshold_table:
  "(rating_of s = Excellent \<longleftrightarrow> 90 \<le> s)
   \<and> (rating_of s = Good \<longleftrightarrow> 75 \<le> s \<and> s < 90)
   \<and> (rating_of s = Fair \<longleftrightarrow> 60 \<le> s \<and> s < 75)
   \<and> (rating_of s = Poor \<longleftrightarrow> 40 \<le> s \<and> s < 60)
   \<and> (rating_of s = Very_Poor \<longleftrightarrow> s < 40)
   \<and> rating_of 90 = Excellent \<and> rating_of 89.999 = Good
   \<and> rating_of 75 = Good \<and> rating_of 60 = Fair \<and> rating_of 40 = Poor
   \<and> fst (AffordabilityIndex_rate s) = rating_of s
   \<and> snd (AffordabilityIndex_rate s) = recommendation_text (rating_of s)
   \<and> (getScoreColor (Fin s) = getScoreColor (Fin t) \<longleftrightarrow> rating_of s = rating_of t)
   \<and> getScoreColor (Fin 90) = ''#4caf50'' \<and> getScoreColor (Fin 89.999) = ''#8bc34a''"
  by (simp add: rating_of_def AffordabilityIndex_rate_def getScoreColor_def ge_num_def)

subsection \<open>The order of the recommendations\<close>

lemma ranks_before_key: "ranks_before a b \<longleftrightarrow> ranking_key a \<le> ranking_key b"
  by (auto simp: ranks_before_def ranking_key_def less_eq_prod_def)

lemma insert_ranked_insort: "insert_ranked x ys = insort_key ranking_key x ys"
  by (induction ys) (simp_all add: ranks_before_key)

lemma sort_ranked_sort_key: "sort_ranked xs = sort_key ranking_key xs"
  by (induction xs) (simp_all add: insert_ranked_insort)

lemma sorted_wrt_sort_ranked: "sorted_wrt ranks_before (sort_ranked xs)"
proof -
  have "sorted (map ranking_key (sort_key ranking_key xs))" by simp
  then show ?thesis
    by (simp add: sort_ranked_sort_key sorted_wrt_map ranks_before_key[abs_def])
qed

lemma keys_sort_ranked: "map ranking_key (sort_ranked xs) = sort (map ranking_key xs)"
proof -
  have "mset (map ranking_key (sort_key ranking_key xs)) = mset (map ranking_key xs)"
    by simp
  moreover have "sorted (map ranking_key (sort_key ranking_key xs))" by simp
  ultimately have "sort (map ranking_key xs) = map ranking_key (sort_key ranking_key xs)"
    by (rule properties_for_sort)
  then show ?thesis by (simp add: sort_ranked_sort_key)
qed

lemma sort_mset_cong: "mset (xs :: 'a::linorder list) = mset ys \<Longrightarrow> sort xs = sort ys"
  by (metis properties_for_sort sorted_sort mset_sort)

lemma keys_sort_ranked_perm:
  assumes "mset xs = mset ys"
  shows "map ranking_key (sort_ranked xs) = map ranking_key (sort_ranked ys)"
proof -
  from assms have "mset (map ranking_key xs) = mset (map ranking_key ys)"
    by (metis mset_map)
  then show ?thesis by (simp add: keys_sort_ranked sort_mset_cong)
qed

lemma set_sort_ranked: "set (sort_ranked xs) = set xs"
  by (simp add: sort_ranked_sort_key)

lemma hd_sort_ranked:
  assumes "c \<in> set xs"
  shows "ranks_before (hd (sort_ranked xs)) c"
proof -
  from assms have c: "c \<in> set (sort_ranked xs)" by (simp add: set_sort_ranked)
  then obtain y ys where ys: "sort_ranked xs = y # ys" by (cases "sort_ranked xs") auto
  have "ranks_before y y" by (simp add: ranks_before_def)
  moreover from sorted_wrt_sort_ranked[of xs] ys have "\<forall>z\<in>set ys. ranks_before y z" by simp
  ultimately show ?thesis using c ys by auto
qed

lemma ranks_before_score: "ranks_before a b \<Longrightarrow> rec_overall_score b \<le> rec_overall_score a"
  by (auto simp: ranks_before_def)

lemma shown_cards:
  "map shown (map (\<lambda>(rec, index). \<lparr>best_match = (index = 0), shown = rec\<rparr>)
     (zip recs [0..<length recs])) = recs"
  by (rule nth_equalityI) simp_all

text \<open>
  Claim C4. The ranking returns at most 10 entries, sorted: of two entries the earlier
  has the higher overall score, or the same score and the lower price, or the same
  score and price and the model name that is not later in lexicographic order; in
  particular scores never increase along the list. The entries are candidates, the
  first one ranks before every candidate, and the sequence of (score, price, model)
  along the result does not depend on the order in which the candidates were given.
  The component shows the entries in this order, with a count of at most 10.
\<close>

theorem C4_ranking_is_sorted_and_at_most_ten:
  assumes "recommend_ranking candidates = Inr recs"
  shows "length recs \<le> 10
         \<and> (\<forall>i j. i < j \<and> j < length recs \<longrightarrow>
               rec_overall_score (recs ! j) \<le> rec_overall_score (recs ! i)
               \<and> ranks_before (recs ! i) (recs ! j))
         \<and> set recs \<subseteq> set candidates
         \<and> recs \<noteq> [] \<and> (\<forall>c\<in>set candidates. ranks_before (hd recs) c)
         \<and> (\<forall>cs recs'. mset cs = mset candidates \<and> recommend_ranking cs = Inr recs' \<longrightarrow>
               map ranking_key recs' = map ranking_key recs)
         \<and> (\<exists>cards. Recommendations (Some recs) = Some (length recs, cards)
               \<and> map shown cards = recs)"
proof -
  from assms have ne: "candidates \<noteq> []" and recs: "recs = take 10 (sort_ranked candidates)"
    by (auto simp: recommend_ranking_def split: if_splits)
  have len: "length recs \<le> 10" by (simp add: recs)
  have "sorted_wrt ranks_before recs"
    unfolding recs using sorted_wrt_sort_ranked by (rule sorted_wrt_take)
  then have pair: "\<forall>i j. i < j \<and> j < length recs \<longrightarrow> ranks_before (recs ! i) (recs ! j)"
    by (simp add: sorted_wrt_iff_nth_less)
  then have ord: "\<forall>i j. i < j \<and> j < length recs \<longrightarrow>
               rec_overall_score (recs ! j) \<le> rec_overall_score (recs ! i)
               \<and> ranks_before (recs ! i) (recs ! j)"
    by (blast intro: ranks_before_score)
  have sub: "set recs \<subseteq> set candidates"
    unfolding recs using set_take_subset[of 10 "sort_ranked candidates"]
    by (simp add: set_sort_ranked)
  from ne have sne: "sort_ranked candidates \<noteq> []"
    by (metis set_sort_ranked set_empty)
  then have rne: "recs \<noteq> []" by (simp add: recs)
  from sne have "hd recs = hd (sort_ranked candidates)" by (simp add: recs)
  then have best: "\<forall>c\<in>set candidates. ranks_before (hd recs) c"
    by (simp add: hd_sort_ranked)
  have det: "\<forall>cs recs'. mset cs = mset candidates \<and> recommend_ranking cs = Inr recs' \<longrightarrow>
               map ranking_key recs' = map ranking_key recs"
  proof (intro allI impI)
    fix cs recs'
    assume h: "mset cs = mset candidates \<and> recommend_ranking cs = Inr recs'"
    then have r': "recs' = take 10 (sort_ranked cs)"
      by (auto simp: recommend_ranking_def split: if_splits)
    from h have "mset cs = mset candidates" by simp
    then have "map ranking_key (sort_ranked cs) = map ranking_key (sort_ranked candidates)"
      by (rule keys_sort_ranked_perm)
    then have "take 10 (map ranking_key (sort_ranked cs))
                 = take 10 (map ranking_key (sort_ranked candidates))"
      by simp
    then show "map ranking_key recs' = map ranking_key recs"
      by (simp only: r' recs take_map)
  qed
  have shown: "\<exists>cards. Recommendations (Some recs) = Some (length recs, cards)
               \<and> map shown cards = recs"
  proof (intro exI conjI)
    show "Recommendations (Some recs)
            = Some (length recs,
                    map (\<lambda>(rec, index). \<lparr>best_match = (index = 0), shown = rec\<rparr>)
                        (zip recs [0..<length recs]))"
      by (simp add: Recommendations_def)
    show "map shown (map (\<lambda>(rec, index). \<lparr>best_match = (index = 0), shown = rec\<rparr>)
                        (zip recs [0..<length recs])) = recs"
      by (rule shown_cards)
  qed
  from len ord sub rne best det shown show ?thesis
    by - (intro conjI; assumption)
qed

text \<open>
  Witness of C4: of three candidates the one with the highest score comes first, and
  the two tied on score and price follow in the order of their model names.
\<close>

theorem C4_ranking_is_sorted_and_at_most_ten_witness:
  "recommend_ranking [corolla_le, camry_se, camry_le] = Inr [camry_se, camry_le, corolla_le]
   \<and> rec_overall_score corolla_le \<le> rec_overall_score camry_se
   \<and> ranks_before camry_se corolla_le
   \<and> ranks_before camry_le corolla_le
   \<and> mset [camry_le, corolla_le, camry_se] = mset [corolla_le, camry_se, camry_le]
   \<and> recommend_ranking [camry_le, corolla_le, camry_se] = Inr [camry_se, camry_le, corolla_le]"
proof -
  have r: "recommend_ranking [corolla_le, camry_se, camry_le]
             = Inr [camry_se, camry_le, corolla_le]"
    by (simp add: recommend_ranking_def ranks_before_def corolla_le_def camry_se_def
        camry_le_def)
  have r': "recommend_ranking [camry_le, corolla_le, camry_se]
             = Inr [camry_se, camry_le, corolla_le]"
    by (simp add: recommend_ranking_def ranks_before_def corolla_le_def camry_se_def
        camry_le_def)
  have m: "mset [camry_le, corolla_le, camry_se] = mset [corolla_le, camry_se, camry_le]"
    by (simp add: add.commute)
  from C4_ranking_is_sorted_and_at_most_ten[OF r]
  have ord: "\<forall>i j. i < j \<and> j < length [camry_se, camry_le, corolla_le] \<longrightarrow>
               rec_overall_score ([camry_se, camry_le, corolla_le] ! j)
                 \<le> rec_overall_score ([camry_se, camry_le, corolla_le] ! i)
               \<and> ranks_before ([camry_se, camry_le, corolla_le] ! i)
                    ([camry_se, camry_le, corolla_le] ! j)"
    by blast
  from ord[rule_format, of 0 2] have 1:
    "rec_overall_score corolla_le \<le> rec_overall_score camry_se"
    "ranks_before camry_se corolla_le"
    by simp_all
  from ord[rule_format, of 1 2] have 2: "ranks_before camry_le corolla_le" by simp
  from r r' m 1 2 show ?thesis by simp
qed

subsection \<open>The listing of the models\<close>

lemma find_list_models:
  "find (\<lambda>m. name m = n) (list_models catalog)
     = map_option (\<lambda>c. \<lparr>name = catalog_name c, trims = catalog_trims c\<rparr>)
         (find (\<lambda>c. catalog_name c = n) catalog)"
  by (induction catalog) (simp_all add: list_models_def)

text \<open>
  Claim C7. The listing of the models is a sequence with one record per model of the
  reference catalog, in the order of the catalog, each with the name of the model and
  its trims. It is the shape the form reads: the names are the options of the model
  select, and for a chosen model the effect of the form finds the entry by its name
  and takes its trims.
\<close>

theorem C7_list_models_gives_name_and_trims_in_order:
  "map name (list_models catalog) = map catalog_name catalog
   \<and> map trims (list_models catalog) = map catalog_trims catalog
   \<and> (\<forall>fd cur c. model fd \<noteq> [] \<and> find (\<lambda>c. catalog_name c = model fd) catalog = Some c
         \<longrightarrow> trims_effect fd (list_models catalog) cur = catalog_trims c)
   \<and> (\<forall>a v. models a = list_models catalog \<longrightarrow>
         enabled a (Vehicle_change Model v)
           = (v = [] \<or> v \<in> set (map catalog_name catalog)))"
proof -
  have 1: "map name (list_models catalog) = map catalog_name catalog"
    "map trims (list_models catalog) = map catalog_trims catalog"
    by (simp_all add: list_models_def comp_def)
  have 2: "\<forall>fd cur c. model fd \<noteq> [] \<and> find (\<lambda>c. catalog_name c = model fd) catalog = Some c
         \<longrightarrow> trims_effect fd (list_models catalog) cur = catalog_trims c"
    by (simp add: trims_effect_def find_list_models)
  have 3: "\<forall>a v. models a = list_models catalog \<longrightarrow>
         enabled a (Vehicle_change Model v)
           = (v = [] \<or> v \<in> set (map catalog_name catalog))"
    using 1(1) by (metis enabled.simps(1))
  from 1 2 3 show ?thesis
    by - (intro conjI; assumption)
qed

text \<open>
  Witness of C7: the listing of the reference catalog of the example is the catalog
  of the example page, and the effect of the form takes the trims of the Camry from
  it.
\<close>

theorem C7_list_models_gives_name_and_trims_in_order_witness:
  "list_models example_reference_catalog = camry_catalog
   \<and> model (vehicle_formData example_page) \<noteq> []
   \<and> find (\<lambda>c. catalog_name c = model (vehicle_formData example_page))
        example_reference_catalog = Some (hd example_reference_catalog)
   \<and> trims_effect (vehicle_formData example_page) (list_models example_reference_catalog) []
       = [''LE'', ''SE'']
   \<and> models example_page = list_models example_reference_catalog
   \<and> enabled example_page (Vehicle_change Model ''Camry'')"
proof -
  have l: "list_models example_reference_catalog = camry_catalog"
    by (simp add: list_models_def example_reference_catalog_def camry_catalog_def)
  have m: "model (vehicle_formData example_page) \<noteq> []" by (simp add: example_page_def)
  have f: "find (\<lambda>c. catalog_name c = model (vehicle_formData example_page))
        example_reference_catalog = Some (hd example_reference_catalog)"
    by (simp add: example_page_def example_reference_catalog_def)
  have ms: "models example_page = list_models example_reference_catalog"
    by (simp add: l) (simp add: example_page_def)
  note T = C7_list_models_gives_name_and_trims_in_order[of example_reference_catalog]
  from T m f
  have "trims_effect (vehicle_formData example_page) (list_models example_reference_catalog) []
          = catalog_trims (hd example_reference_catalog)"
    by blast
  then have t: "trims_effect (vehicle_formData example_page)
                  (list_models example_reference_catalog) [] = [''LE'', ''SE'']"
    by (simp add: example_reference_catalog_def)
  from T ms have "enabled example_page (Vehicle_change Model ''Camry'')
          = (''Camry'' = [] \<or> ''Camry'' \<in> set (map catalog_name example_reference_catalog))"
    by blast
  then have e: "enabled example_page (Vehicle_change Model ''Camry'')"
    by (simp add: example_reference_catalog_def)
  from l m f t ms e show ?thesis
    by - (intro conjI; assumption)
qed


end
